theory Spec2Isabelle
  imports Main
begin

section \<open>Text\<close>

text \<open>
  A Python \<open>str\<close> is a sequence of code points. The model keeps the code points
  U+0000 to U+00FF, one \<open>char\<close> each (\<open>of_char\<close> is the code point), so that
  \<open>length\<close> counts what Python's \<open>len\<close> counts.

  Two different case foldings meet in the program. \<open>str.lower()\<close> of Python folds
  every cased letter: on this range the letters A to Z and the capitals U+00C0 to
  U+00DE without the multiplication sign U+00D7, each moved up by 32. The SQL function
  \<open>LOWER\<close> of SQLite folds the letters A to Z only and leaves every other code point
  as it is.
\<close>

definition py_lower_char :: "char \<Rightarrow> char" where
  "py_lower_char c =
     (let n = (of_char c :: nat)
      in if (65 \<le> n \<and> n \<le> 90) \<or> (192 \<le> n \<and> n \<le> 222 \<and> n \<noteq> 215)
         then char_of (n + 32) else c)"

definition py_lower :: "string \<Rightarrow> string" where
  "py_lower s = map py_lower_char s"

definition sqlite_lower_char :: "char \<Rightarrow> char" where
  "sqlite_lower_char c =
     (let n = (of_char c :: nat)
      in if 65 \<le> n \<and> n \<le> 90 then char_of (n + 32) else c)"

definition sqlite_lower :: "string \<Rightarrow> string" where
  "sqlite_lower s = map sqlite_lower_char s"

section \<open>The knowledge table\<close>

text \<open>
  Table \<open>knowledge (group_id TEXT, question TEXT, answer TEXT, frequency INTEGER)\<close>.
  It has no key and no index: a row is appended by every INSERT, and a SELECT scans
  the rows in the order of insertion, so the table is a list and \<open>fetchone\<close> is the
  first row that satisfies the WHERE clause.
\<close>

record knowledge_row =
  group_id :: string
  question :: string
  answer :: string
  frequency :: int

type_synonym knowledge = "knowledge_row list"

text \<open>\<open>WHERE group_id = ? AND LOWER(question) = ?\<close>, the second parameter being
  \<open>question.lower()\<close>.\<close>

definition select_where :: "string \<Rightarrow> string \<Rightarrow> knowledge_row \<Rightarrow> bool" where
  "select_where g q r = (group_id r = g \<and> sqlite_lower (question r) = py_lower q)"

text \<open>\<open>UPDATE knowledge SET frequency = ? WHERE group_id = ? AND question = ?\<close>.\<close>

definition update_frequency :: "int \<Rightarrow> string \<Rightarrow> string \<Rightarrow> knowledge \<Rightarrow> knowledge" where
  "update_frequency f g k tbl =
     map (\<lambda>r. if group_id r = g \<and> question r = k then r\<lparr>frequency := f\<rparr> else r) tbl"

text \<open>
  \<open>get_faq_answer\<close>: the row fetched is the pair \<open>(answer, frequency)\<close>, which as a
  non-empty tuple is always true. The third parameter of the UPDATE is \<open>result[0]\<close>,
  the first component of that pair: the answer.
\<close>

definition get_faq_answer :: "string \<Rightarrow> string \<Rightarrow> knowledge \<Rightarrow> string option \<times> knowledge" where
  "get_faq_answer g q tbl =
     (case find (select_where g q) tbl of
        Some r \<Rightarrow>
          (let result = (answer r, frequency r);
               freq = snd result
           in (Some (fst result), update_frequency (freq + 1) g (fst result) tbl))
      | None \<Rightarrow> (None, tbl))"

definition store_faq :: "string \<Rightarrow> string \<Rightarrow> string \<Rightarrow> knowledge \<Rightarrow> knowledge" where
  "store_faq g q a tbl =
     tbl @ [\<lparr>group_id = g, question = q, answer = a, frequency = 1\<rparr>]"

section \<open>Replies\<close>

text \<open>
  Every \<open>reply_text\<close> of the handlers, one constructor for each message, with the
  values its f-string interpolates:
  \<^item> \<open>Important t\<close>: the flagged text \<open>t\<close> behind the tag \<open>[Important]\<close>;
  \<^item> \<open>AutoAnswer a\<close>: \<open>Auto-Answer: a\<close>;
  \<^item> \<open>Clarify q\<close>: \<open>Could you clarify or provide more details about 'q'?\<close>;
  \<^item> \<open>FaqAdded q a\<close>: \<open>FAQ added: q -> a\<close>; \<open>FaqUsage\<close>: \<open>Usage: /addfaq question | answer\<close>;
  \<^item> \<open>ReminderUsage\<close>: \<open>Usage: /setreminder message | YYYY-MM-DD HH:MM\<close>;
  \<^item> \<open>MustBeFuture\<close>: \<open>Reminder time must be in the future.\<close>;
  \<^item> \<open>ReminderSet c t\<close>: \<open>Reminder set for 'c' at t\<close>;
  \<^item> \<open>InvalidFormat\<close>: \<open>Invalid format. Use: /setreminder message | YYYY-MM-DD HH:MM\<close>;
  \<^item> \<open>FailedToSet\<close>: \<open>Failed to set reminder.\<close>
\<close>

datatype reply =
    Important string
  | AutoAnswer string
  | Clarify string
  | FaqAdded string string
  | FaqUsage
  | ReminderUsage
  | MustBeFuture
  | ReminderSet string string
  | InvalidFormat
  | FailedToSet

section \<open>Answering a question\<close>

text \<open>
  The question branch of \<open>handle_message\<close>, from the call of \<open>get_faq_answer\<close>
  on. The test \<open>if answer:\<close> is Python's truth value of \<open>answer\<close>: \<open>None\<close> and
  the empty string are both false. The result is the value of \<open>answer\<close>, the replies
  sent, and the table afterwards.
\<close>

definition handle_question :: "string \<Rightarrow> string \<Rightarrow> knowledge \<Rightarrow> string option \<times> reply list \<times> knowledge" where
  "handle_question g q tbl =
     (let (ans, tbl') = get_faq_answer g q tbl
      in case ans of
           Some a \<Rightarrow>
             if a \<noteq> [] then (ans, [AutoAnswer a], tbl')
             else (ans, [Clarify q], store_faq g q ''Pending admin response'' tbl')
         | None \<Rightarrow> (ans, [Clarify q], store_faq g q ''Pending admin response'' tbl'))"

section \<open>Relevance of a message\<close>

text \<open>
  The patterns of \<open>IMPORTANT_KEYWORDS\<close> have the shape \<open>\b(k1|k2|...)\b\<close>. The class
  \<open>\w\<close> of Python's \<open>re\<close> on \<open>str\<close> is the alphanumeric code points and the
  underscore; \<open>\b\<close> holds at a position when exactly one of the code points before
  and after it is in \<open>\w\<close>, the two ends of the text counting as not in \<open>\w\<close>.
\<close>

definition is_word :: "char \<Rightarrow> bool" where
  "is_word c =
     (let n = (of_char c :: nat)
      in (48 \<le> n \<and> n \<le> 57) \<or> (65 \<le> n \<and> n \<le> 90) \<or> n = 95 \<or> (97 \<le> n \<and> n \<le> 122)
         \<or> n = 170 \<or> n = 178 \<or> n = 179 \<or> n = 181 \<or> n = 185 \<or> n = 186
         \<or> n = 188 \<or> n = 189 \<or> n = 190
         \<or> (192 \<le> n \<and> n \<le> 214) \<or> (216 \<le> n \<and> n \<le> 246) \<or> 248 \<le> n)"

definition is_word_at :: "char option \<Rightarrow> bool" where
  "is_word_at x = (case x of None \<Rightarrow> False | Some c \<Rightarrow> is_word c)"

definition word_boundary :: "char option \<Rightarrow> char option \<Rightarrow> bool" where
  "word_boundary prev nxt = (is_word_at prev \<noteq> is_word_at nxt)"

definition next_char :: "string \<Rightarrow> char option" where
  "next_char s = (case s of [] \<Rightarrow> None | c # _ \<Rightarrow> Some c)"

definition last_char :: "char option \<Rightarrow> string \<Rightarrow> char option" where
  "last_char prev k = (if k = [] then prev else Some (last k))"

text \<open>\<open>\bk\b\<close> at the start of \<open>s\<close>, the code point before \<open>s\<close> being \<open>prev\<close>.\<close>

definition match_alternative :: "char option \<Rightarrow> string \<Rightarrow> string \<Rightarrow> bool" where
  "match_alternative prev s k =
     (word_boundary prev (next_char s) \<and> take (length k) s = k
      \<and> word_boundary (last_char prev k) (next_char (drop (length k) s)))"

text \<open>\<open>re.search\<close>: the pattern is tried at every position from left to right, and at
  a position each alternative in turn.\<close>

fun re_search :: "string list \<Rightarrow> char option \<Rightarrow> string \<Rightarrow> bool" where
  "re_search ks prev [] = list_ex (match_alternative prev []) ks"
| "re_search ks prev (c # cs) =
     (list_ex (match_alternative prev (c # cs)) ks \<or> re_search ks (Some c) cs)"

definition IMPORTANT_KEYWORDS :: "string list list" where
  "IMPORTANT_KEYWORDS =
     [[''announcement'', ''event'', ''reminder'', ''urgent'', ''critical'', ''deadline''],
      [''date'', ''time'', ''location'', ''schedule'']]"

text \<open>
  \<open>detect_relevance\<close>. The entity recogniser is spaCy's, outside this program: \<open>ents\<close>
  gives, for the text handed to \<open>nlp\<close>, the labels of \<open>doc.ents\<close> in order.
\<close>

definition detect_relevance :: "(string \<Rightarrow> string list) \<Rightarrow> string \<Rightarrow> bool" where
  "detect_relevance ents text =
     (let doc_ents = ents (py_lower text)
      in if list_ex (\<lambda>pattern. re_search pattern None (py_lower text)) IMPORTANT_KEYWORDS
         then True
         else list_ex (\<lambda>label. label \<in> set [''DATE'', ''TIME'', ''EVENT'']) doc_ents)"

text \<open>A recogniser that finds no entity in any text, to run \<open>detect_relevance\<close> on
  its keyword patterns alone.\<close>

definition no_entities :: "string \<Rightarrow> string list" where
  "no_entities text = []"

section \<open>Extracting a question\<close>

text \<open>
  The sentence segmenter and lemmatiser are spaCy's as well: \<open>sents\<close> gives
  \<open>doc.sents\<close> for a text, each sentence with its text and the lemmas of its tokens.
  \<open>str.strip()\<close> removes the white space of Python at both ends.
\<close>

record sentence =
  sent_text :: string
  sent_lemmas :: "string list"

definition py_isspace :: "char \<Rightarrow> bool" where
  "py_isspace c =
     (let n = (of_char c :: nat)
      in (9 \<le> n \<and> n \<le> 13) \<or> (28 \<le> n \<and> n \<le> 32) \<or> n = 133 \<or> n = 160)"

definition py_strip :: "string \<Rightarrow> string" where
  "py_strip s = rev (dropWhile py_isspace (rev (dropWhile py_isspace s)))"

definition is_question :: "sentence \<Rightarrow> bool" where
  "is_question sent =
     (CHR ''?'' \<in> set (sent_text sent)
      \<or> list_ex (\<lambda>lem. lem \<in> set [''what'', ''how'', ''when'', ''where'', ''why'']) (sent_lemmas sent))"

fun first_question :: "sentence list \<Rightarrow> string option" where
  "first_question [] = None"
| "first_question (sent # rest) =
     (if is_question sent then Some (py_strip (sent_text sent)) else first_question rest)"

definition extract_question :: "(string \<Rightarrow> sentence list) \<Rightarrow> string \<Rightarrow> string option" where
  "extract_question sents text = first_question (sents text)"

text \<open>A segmenter for one text, to run \<open>extract_question\<close>: three sentences, the
  second and the third with a question mark and an interrogative lemma each; any other
  text is one sentence without lemmas.\<close>

definition two_questions :: "string \<Rightarrow> sentence list" where
  "two_questions text =
     (if text = ''Hello all. Where is it? Why not here?''
      then [\<lparr>sent_text = ''Hello all.'', sent_lemmas = [''hello'', ''all'', ''.'']\<rparr>,
            \<lparr>sent_text = ''Where is it?'', sent_lemmas = [''where'', ''be'', ''it'', ''?'']\<rparr>,
            \<lparr>sent_text = ''Why not here?'', sent_lemmas = [''why'', ''not'', ''here'', ''?'']\<rparr>]
      else [\<lparr>sent_text = text, sent_lemmas = []\<rparr>])"

section \<open>Handling a message\<close>

record important_row =
  im_group_id :: string
  im_message_id :: int
  im_content :: string

definition store_important_message ::
  "string \<Rightarrow> int \<Rightarrow> string \<Rightarrow> important_row list \<Rightarrow> important_row list" where
  "store_important_message g mid content tbl =
     tbl @ [\<lparr>im_group_id = g, im_message_id = mid, im_content = content\<rparr>]"

text \<open>
  What \<open>handle_message\<close> reads and writes: the two tables and \<open>bot.group_context\<close>, a
  \<open>defaultdict(list)\<close>, so a group never seen has the empty list. The handler is
  modelled on a store that answers every statement; it catches no exception itself.
\<close>

record bot =
  knowledge_tbl :: knowledge
  important_tbl :: "important_row list"
  group_context :: "string \<Rightarrow> string list"

definition init_bot :: bot where
  "init_bot = \<lparr>knowledge_tbl = [], important_tbl = [], group_context = (\<lambda>_. [])\<rparr>"

definition append_context :: "string list \<Rightarrow> string \<Rightarrow> string list" where
  "append_context buf text =
     (let buf' = buf @ [text] in if length buf' > 100 then tl buf' else buf')"

definition handle_message ::
  "(string \<Rightarrow> string list) \<Rightarrow> (string \<Rightarrow> sentence list) \<Rightarrow> bot \<Rightarrow> string \<times> int \<times> string
     \<Rightarrow> reply list \<times> bot" where
  "handle_message ents sents b msg =
     (let (g, mid, text) = msg;
          (r1, imp) =
            (if detect_relevance ents text
             then ([Important text], store_important_message g mid text (important_tbl b))
             else ([], important_tbl b));
          (r2, kn) =
            (case extract_question sents text of
               Some q \<Rightarrow>
                 if q \<noteq> [] then snd (handle_question g q (knowledge_tbl b))
                 else ([], knowledge_tbl b)
             | None \<Rightarrow> ([], knowledge_tbl b))
      in (r1 @ r2,
          \<lparr>knowledge_tbl = kn, important_tbl = imp,
           group_context = (group_context b)(g := append_context (group_context b g) text)\<rparr>))"

fun handle_messages ::
  "(string \<Rightarrow> string list) \<Rightarrow> (string \<Rightarrow> sentence list) \<Rightarrow> bot \<Rightarrow> (string \<times> int \<times> string) list \<Rightarrow> bot" where
  "handle_messages ents sents b [] = b"
| "handle_messages ents sents b (msg # msgs) =
     handle_messages ents sents (snd (handle_message ents sents b msg)) msgs"

section \<open>Commands\<close>

text \<open>\<open>" ".join(context.args).split("|")\<close>.\<close>

fun join_space :: "string list \<Rightarrow> string" where
  "join_space [] = []"
| "join_space [a] = a"
| "join_space (a # b # rest) = a @ '' '' @ join_space (b # rest)"

fun split_on :: "char \<Rightarrow> string \<Rightarrow> string list" where
  "split_on d [] = [[]]"
| "split_on d (c # cs) =
     (if c = d then [] # split_on d cs
      else (case split_on d cs of [] \<Rightarrow> [[c]] | w # ws \<Rightarrow> (c # w) # ws))"

text \<open>\<open>add_faq\<close>: unpacking into two names raises ValueError unless the split gives
  exactly two parts; the reply quotes the parts as typed, the row holds them stripped.\<close>

definition add_faq :: "string \<Rightarrow> string list \<Rightarrow> knowledge \<Rightarrow> reply list \<times> knowledge" where
  "add_faq g args tbl =
     (case split_on (CHR ''|'') (join_space args) of
        [q, a] \<Rightarrow> ([FaqAdded q a], store_faq g (py_strip q) (py_strip a) tbl)
      | _ \<Rightarrow> ([FaqUsage], tbl))"

section \<open>Reminders\<close>

text \<open>
  A naive \<open>datetime\<close> is its seven fields; Python orders two of them as the tuples
  of the fields, from year to microsecond.
\<close>

record datetime =
  year :: int
  month :: int
  day :: int
  hour :: int
  minute :: int
  second :: int
  microsecond :: int

fun lex_less :: "int list \<Rightarrow> int list \<Rightarrow> bool" where
  "lex_less (x # xs) (y # ys) = (x < y \<or> (x = y \<and> lex_less xs ys))"
| "lex_less _ _ = False"

definition dt_fields :: "datetime \<Rightarrow> int list" where
  "dt_fields t = [year t, month t, day t, hour t, minute t, second t, microsecond t]"

definition dt_less :: "datetime \<Rightarrow> datetime \<Rightarrow> bool" where
  "dt_less a b = lex_less (dt_fields a) (dt_fields b)"

text \<open>Table \<open>reminders (group_id TEXT, message_id INTEGER, content TEXT, remind_time
  TIMESTAMP)\<close>.\<close>

record reminder_row =
  rm_group_id :: string
  rm_message_id :: int
  rm_content :: string
  remind_time :: datetime

text \<open>
  \<open>store_reminder\<close> is the one place where the program handles a failing store. The
  statement that fails is a parameter: opening the connection, executing the INSERT,
  or committing. \<open>sqlite3.Error\<close> is caught and logged in each case, and the
  \<open>finally\<close> clause closes the connection. When it was \<open>sqlite3.connect\<close> that
  failed, the name \<open>conn\<close> was never bound, and the \<open>finally\<close> clause itself raises
  \<open>UnboundLocalError\<close>, which leaves the function. A row that was inserted but not
  committed is gone when the connection closes.
  The result is the exception that leaves the function, if any, the table, and the
  log records written.
\<close>

datatype db_fault = NoFault | ConnectFails | ExecuteFails | CommitFails

datatype py_exception = UnboundLocalError

datatype log_record =
    InfoStoredReminder string datetime
  | ErrorSqliteInStoreReminder
  | ErrorValueErrorInSetReminder
  | ErrorInSetReminder

definition store_reminder ::
  "db_fault \<Rightarrow> string \<Rightarrow> int \<Rightarrow> string \<Rightarrow> datetime \<Rightarrow> reminder_row list
     \<Rightarrow> py_exception option \<times> reminder_row list \<times> log_record list" where
  "store_reminder fault g mid content t tbl =
     (case fault of
        NoFault \<Rightarrow>
          (None,
           tbl @ [\<lparr>rm_group_id = g, rm_message_id = mid, rm_content = content, remind_time = t\<rparr>],
           [InfoStoredReminder content t])
      | ConnectFails \<Rightarrow> (Some UnboundLocalError, tbl, [ErrorSqliteInStoreReminder])
      | ExecuteFails \<Rightarrow> (None, tbl, [ErrorSqliteInStoreReminder])
      | CommitFails \<Rightarrow> (None, tbl, [ErrorSqliteInStoreReminder]))"

text \<open>
  What \<open>set_reminder\<close> leaves behind: the replies sent, the table, the deliveries
  handed to \<open>asyncio.create_task\<close> (the content and the time it is due; the delay is
  counted from a second reading of the clock), and the log records.
\<close>

record outcome =
  replies :: "reply list"
  reminders :: "reminder_row list"
  scheduled :: "(string \<times> datetime) list"
  logged :: "log_record list"

text \<open>
  The body of the \<open>try\<close> block from \<open>datetime.strptime\<close> on. The parser is the
  library's: \<open>strptime time_str\<close> is \<open>datetime.strptime(time_str, "%Y-%m-%d %H:%M")\<close>,
  \<open>None\<close> when it raises ValueError. \<open>now\<close> is the reading of \<open>datetime.now()\<close> in the
  comparison.
\<close>

definition request_reminder ::
  "(string \<Rightarrow> datetime option) \<Rightarrow> datetime \<Rightarrow> db_fault \<Rightarrow> string \<Rightarrow> int \<Rightarrow> string \<Rightarrow> string
     \<Rightarrow> reminder_row list \<Rightarrow> outcome" where
  "request_reminder strptime now fault g mid content time_str tbl =
     (case strptime time_str of
        None \<Rightarrow>
          \<lparr>replies = [InvalidFormat], reminders = tbl, scheduled = [],
           logged = [ErrorValueErrorInSetReminder]\<rparr>
      | Some t \<Rightarrow>
          if dt_less t now
          then \<lparr>replies = [MustBeFuture], reminders = tbl, scheduled = [], logged = []\<rparr>
          else (case store_reminder fault g mid content t tbl of
                  (Some e, tbl', lg) \<Rightarrow>
                    \<lparr>replies = [FailedToSet], reminders = tbl', scheduled = [],
                     logged = lg @ [ErrorInSetReminder]\<rparr>
                | (None, tbl', lg) \<Rightarrow>
                    \<lparr>replies = [ReminderSet content time_str], reminders = tbl',
                     scheduled = [(content, t)], logged = lg\<rparr>))"

definition set_reminder ::
  "(string \<Rightarrow> datetime option) \<Rightarrow> datetime \<Rightarrow> db_fault \<Rightarrow> string \<Rightarrow> int \<Rightarrow> string list
     \<Rightarrow> reminder_row list \<Rightarrow> outcome" where
  "set_reminder strptime now fault g mid args tbl =
     (case split_on (CHR ''|'') (join_space args) of
        [content, time_str] \<Rightarrow>
          request_reminder strptime now fault g mid (py_strip content) (py_strip time_str) tbl
      | _ \<Rightarrow> \<lparr>replies = [ReminderUsage], reminders = tbl, scheduled = [], logged = []\<rparr>)"

text \<open>
  To run the handler on a request, a parser for the zero-padded form
  \<open>YYYY-MM-DD HH:MM\<close> in ASCII digits: on these strings it gives what the library
  gives (year from 1, a day that the month has, hour to 23, minute to 59, seconds
  zero). The library accepts more, fields without the padding among them.
\<close>

definition digit :: "char \<Rightarrow> int option" where
  "digit c =
     (let n = (of_char c :: nat) in if 48 \<le> n \<and> n \<le> 57 then Some (int n - 48) else None)"

fun number :: "int \<Rightarrow> string \<Rightarrow> int option" where
  "number acc [] = Some acc"
| "number acc (c # cs) = (case digit c of None \<Rightarrow> None | Some d \<Rightarrow> number (10 * acc + d) cs)"

definition days_in_month :: "int \<Rightarrow> int \<Rightarrow> int" where
  "days_in_month y m =
     (if m = 2
      then (if y mod 400 = 0 then 29 else if y mod 100 = 0 then 28
            else if y mod 4 = 0 then 29 else 28)
      else if m = 4 \<or> m = 6 \<or> m = 9 \<or> m = 11 then 30 else 31)"

definition strptime_padded :: "string \<Rightarrow> datetime option" where
  "strptime_padded s =
     (if length s = 16 \<and> s ! 4 = CHR ''-'' \<and> s ! 7 = CHR ''-'' \<and> s ! 10 = CHR '' ''
         \<and> s ! 13 = CHR '':''
      then (case (number 0 (take 4 s), number 0 (take 2 (drop 5 s)), number 0 (take 2 (drop 8 s)),
                  number 0 (take 2 (drop 11 s)), number 0 (drop 14 s)) of
              (Some y, Some m, Some d, Some h, Some mi) \<Rightarrow>
                if 1 \<le> y \<and> 1 \<le> m \<and> m \<le> 12 \<and> 1 \<le> d \<and> d \<le> days_in_month y m
                   \<and> h \<le> 23 \<and> mi \<le> 59
                then Some \<lparr>year = y, month = m, day = d, hour = h, minute = mi, second = 0,
                           microsecond = 0\<rparr>
                else None
            | _ \<Rightarrow> None)
      else None)"

section \<open>Properties of the two case foldings\<close>

lemma py_lower_char_idem: "py_lower_char (py_lower_char c) = py_lower_char c"
  by (auto simp: py_lower_char_def Let_def)

lemma py_lower_sqlite_lower_char: "py_lower_char (sqlite_lower_char c) = py_lower_char c"
  by (auto simp: py_lower_char_def sqlite_lower_char_def Let_def)

lemma py_lower_sqlite_lower: "py_lower (sqlite_lower s) = py_lower s"
  by (simp add: py_lower_def sqlite_lower_def py_lower_sqlite_lower_char)

lemma py_lower_idem: "py_lower (py_lower s) = py_lower s"
  by (simp add: py_lower_def py_lower_char_idem)

text \<open>A row the SELECT accepts has a question equal to the query up to case, with
  Python's folding on both sides; the converse fails (see \<open>C5\<close> below).\<close>

lemma select_where_eq_upto_case:
  "select_where g q r \<Longrightarrow> group_id r = g \<and> py_lower (question r) = py_lower q"
  by (metis select_where_def py_lower_sqlite_lower py_lower_idem)

section \<open>Properties of the FAQ service\<close>

lemma handle_question_miss:
  "find (select_where g q) tbl = None \<Longrightarrow>
   handle_question g q tbl =
     (None, [Clarify q],
      tbl @ [\<lparr>group_id = g, question = q, answer = ''Pending admin response'', frequency = 1\<rparr>])"
  by (simp add: handle_question_def get_faq_answer_def store_faq_def)

text \<open>
  Claim C1. After \<open>store_faq(group, question, answer)\<close>, asking the same question
  should return the answer and raise the stored frequency from 1 to 2. The code
  returns the answer, but the UPDATE that follows is keyed on \<open>result[0]\<close>, which is
  the answer and not the question (the comment beside it reads "Use original question
  for update"), so no row is touched and the frequency stays 1. Evaluated on the
  example of the specification, group 42, "what is the venue", "Building 5":
\<close>

theorem registered_faq_frequency_stays_1:
  "handle_question ''42'' ''what is the venue''
     (store_faq ''42'' ''what is the venue'' ''Building 5'' [])
   = (Some ''Building 5'', [AutoAnswer ''Building 5''],
      [\<lparr>group_id = ''42'', question = ''what is the venue'', answer = ''Building 5'',
        frequency = 1\<rparr>])"
  by (simp add: handle_question_def get_faq_answer_def store_faq_def select_where_def
      update_frequency_def sqlite_lower_def py_lower_def sqlite_lower_char_def py_lower_char_def)

text \<open>
  Claim C3. When no row of the group has a question equal to the asked one up to case,
  the question branch yields no answer, and the table afterwards is the table before
  followed by one new row: the question as asked, the answer "Pending admin response",
  frequency 1.
\<close>

theorem unseen_question_registers_pending:
  assumes "\<forall>r \<in> set tbl. group_id r = g \<longrightarrow> py_lower (question r) \<noteq> py_lower q"
  shows "handle_question g q tbl =
     (None, [Clarify q],
      tbl @ [\<lparr>group_id = g, question = q, answer = ''Pending admin response'', frequency = 1\<rparr>])"
proof -
  have "find (select_where g q) tbl = None"
    using assms select_where_eq_upto_case by (fastforce simp: find_None_iff)
  then show ?thesis by (rule handle_question_miss)
qed

theorem unseen_question_registers_pending_witness:
  "handle_question ''42'' ''When do we meet?''
       [\<lparr>group_id = ''42'', question = ''what is the venue'', answer = ''Building 5'', frequency = 1\<rparr>]
     = (None, [Clarify ''When do we meet?''],
        [\<lparr>group_id = ''42'', question = ''what is the venue'', answer = ''Building 5'', frequency = 1\<rparr>,
         \<lparr>group_id = ''42'', question = ''When do we meet?'', answer = ''Pending admin response'', frequency = 1\<rparr>])"
proof -
  have h: "\<forall>r \<in> set [\<lparr>group_id = ''42'', question = ''what is the venue'', answer = ''Building 5'', frequency = 1\<rparr>].
      group_id r = ''42'' \<longrightarrow> py_lower (question r) \<noteq> py_lower ''When do we meet?''"
    by (simp add: py_lower_def)
  show ?thesis
    using unseen_question_registers_pending [OF h] by simp
qed

lemma lookup_first_match:
  "find (select_where g q) tbl = Some r \<Longrightarrow> fst (get_faq_answer g q tbl) = Some (answer r)"
  by (simp add: get_faq_answer_def)

text \<open>Where the stored question has no capital letter other than A to Z, the two
  foldings agree on it, and every query equal to it up to case selects its row.\<close>

lemma case_variant_selected:
  "group_id r = g \<Longrightarrow> sqlite_lower (question r) = py_lower (question r) \<Longrightarrow>
   py_lower q = py_lower (question r) \<Longrightarrow> select_where g q r"
  by (simp add: select_where_def)

lemma case_variant_hit:
  assumes "r \<in> set tbl" "group_id r = g" "sqlite_lower (question r) = py_lower (question r)"
    "py_lower q = py_lower (question r)"
  shows "\<exists>r'. find (select_where g q) tbl = Some r' \<and> fst (get_faq_answer g q tbl) = Some (answer r')"
proof -
  have "select_where g q r" using assms by (simp add: case_variant_selected)
  then have "find (select_where g q) tbl \<noteq> None"
    using assms(1) by (auto simp: find_None_iff)
  then show ?thesis by (auto simp: lookup_first_match)
qed

text \<open>
  Claim C5. The lookup should find a stored question from every query equal to it up
  to case. The two sides of the comparison are folded by different functions,
  \<open>LOWER\<close> of SQLite on the stored question and \<open>str.lower()\<close> on the query, and
  they differ on every capital letter outside A to Z. A stored question with such a
  letter is found by no query at all, not even by itself: the question
  \<open>\<acute>Ecole?\<close> (first letter U+00C9) is stored and looked up unchanged, and the
  lookup misses.
\<close>

theorem lookup_misses_identical_question:
  "get_faq_answer ''42'' (CHR 0xC9 # ''cole?'')
     (store_faq ''42'' (CHR 0xC9 # ''cole?'') ''Rue Cler'' [])
   = (None,
      [\<lparr>group_id = ''42'', question = CHR 0xC9 # ''cole?'', answer = ''Rue Cler'',
        frequency = 1\<rparr>])"
  by (simp add: get_faq_answer_def store_faq_def select_where_def
      sqlite_lower_def py_lower_def sqlite_lower_char_def py_lower_char_def char_of_def)

lemma find_append_miss: "find P xs = None \<Longrightarrow> find P (xs @ ys) = find P ys"
  by (induction xs) (auto split: if_splits)

text \<open>After a miss on \<open>q\<close>, a question that the SELECT equates with \<open>q\<close> gets the
  placeholder of the pending row as its answer.\<close>

lemma pending_answer_returned:
  assumes miss: "find (select_where g q) tbl = None"
    and same: "sqlite_lower q = py_lower q'"
  shows "fst (handle_question g q' (snd (snd (handle_question g q tbl))))
           = Some ''Pending admin response''
       \<and> fst (snd (handle_question g q' (snd (snd (handle_question g q tbl)))))
           = [AutoAnswer ''Pending admin response'']"
proof -
  let ?row = "\<lparr>group_id = g, question = q, answer = ''Pending admin response'', frequency = 1\<rparr>"
  have "py_lower q' = py_lower q"
    using same py_lower_sqlite_lower [of q] py_lower_idem [of q'] by simp
  then have "select_where g q' = select_where g q"
    by (simp add: select_where_def fun_eq_iff)
  then have "find (select_where g q') tbl = None" using miss by simp
  moreover have "select_where g q' ?row" using same by (simp add: select_where_def)
  ultimately have "find (select_where g q') (tbl @ [?row]) = Some ?row"
    by (simp add: find_append_miss)
  then have "get_faq_answer g q' (tbl @ [?row])
      = (Some ''Pending admin response'',
         update_frequency 2 g ''Pending admin response'' (tbl @ [?row]))"
    by (simp add: get_faq_answer_def)
  then have "handle_question g q' (tbl @ [?row])
      = (Some ''Pending admin response'', [AutoAnswer ''Pending admin response''],
         update_frequency 2 g ''Pending admin response'' (tbl @ [?row]))"
    by (simp add: handle_question_def)
  moreover have "snd (snd (handle_question g q tbl)) = tbl @ [?row]"
    by (simp add: handle_question_miss [OF miss])
  ultimately show ?thesis by simp
qed

text \<open>
  Claim C10. Once a miss has registered the pending row, asking again a question equal
  up to case should return the placeholder "Pending admin response" as the answer.
  For a question with a capital letter outside A to Z the SELECT never finds the
  pending row (the mismatch of claim C5): the same question asked twice misses
  twice, and a second pending row is appended.
\<close>

theorem repeated_question_misses_again:
  "handle_question ''42'' (CHR 0xC9 # ''cole?'')
     (snd (snd (handle_question ''42'' (CHR 0xC9 # ''cole?'') [])))
   = (None, [Clarify (CHR 0xC9 # ''cole?'')],
      [\<lparr>group_id = ''42'', question = CHR 0xC9 # ''cole?'',
        answer = ''Pending admin response'', frequency = 1\<rparr>,
       \<lparr>group_id = ''42'', question = CHR 0xC9 # ''cole?'',
        answer = ''Pending admin response'', frequency = 1\<rparr>])"
  by (simp add: handle_question_def get_faq_answer_def store_faq_def select_where_def
      sqlite_lower_def py_lower_def sqlite_lower_char_def py_lower_char_def char_of_def)

section \<open>Properties of the reminder service\<close>

text \<open>
  Claim C2, as the code has it. A request whose time string parses to a time strictly
  before the reading of the clock is answered "Reminder time must be in the future."
  and leaves nothing behind: no row, no scheduled delivery.
\<close>

theorem past_reminder_rejected:
  assumes "strptime time_str = Some t" and "dt_less t now"
  shows "request_reminder strptime now fault g mid content time_str tbl
         = \<lparr>replies = [MustBeFuture], reminders = tbl, scheduled = [], logged = []\<rparr>"
  using assms by (simp add: request_reminder_def)

theorem past_reminder_rejected_witness:
  "strptime_padded ''2020-01-01 00:00''
     = Some \<lparr>year = 2020, month = 1, day = 1, hour = 0, minute = 0, second = 0, microsecond = 0\<rparr>
   \<and> dt_less \<lparr>year = 2020, month = 1, day = 1, hour = 0, minute = 0, second = 0, microsecond = 0\<rparr>
        \<lparr>year = 2030, month = 6, day = 15, hour = 12, minute = 30, second = 5, microsecond = 250\<rparr>
   \<and> request_reminder strptime_padded
        \<lparr>year = 2030, month = 6, day = 15, hour = 12, minute = 30, second = 5, microsecond = 250\<rparr>
        NoFault ''42'' 7 ''team sync'' ''2020-01-01 00:00'' []
     = \<lparr>replies = [MustBeFuture], reminders = [], scheduled = [], logged = []\<rparr>"
proof -
  have p: "strptime_padded ''2020-01-01 00:00''
     = Some \<lparr>year = 2020, month = 1, day = 1, hour = 0, minute = 0, second = 0, microsecond = 0\<rparr>"
    by (simp add: strptime_padded_def digit_def days_in_month_def)
  have l: "dt_less \<lparr>year = 2020, month = 1, day = 1, hour = 0, minute = 0, second = 0, microsecond = 0\<rparr>
        \<lparr>year = 2030, month = 6, day = 15, hour = 12, minute = 30, second = 5, microsecond = 250\<rparr>"
    by (simp add: dt_less_def dt_fields_def)
  show ?thesis
    using p l past_reminder_rejected [where strptime = strptime_padded
        and time_str = "''2020-01-01 00:00''" and fault = NoFault and g = "''42''" and mid = 7
        and content = "''team sync''" and tbl = "[]", OF p l]
    by simp
qed

text \<open>
  The claim as written also rejects a time equal to the reading of the clock. The
  test of the code is \<open>remind_time < datetime.now()\<close>, so such a request passes: it
  is acknowledged, stored and scheduled.
\<close>

theorem reminder_at_current_time_accepted:
  "strptime_padded ''2030-01-01 10:00''
     = Some \<lparr>year = 2030, month = 1, day = 1, hour = 10, minute = 0, second = 0, microsecond = 0\<rparr>
   \<and> \<not> dt_less \<lparr>year = 2030, month = 1, day = 1, hour = 10, minute = 0, second = 0, microsecond = 0\<rparr>
          \<lparr>year = 2030, month = 1, day = 1, hour = 10, minute = 0, second = 0, microsecond = 0\<rparr>
   \<and> request_reminder strptime_padded
        \<lparr>year = 2030, month = 1, day = 1, hour = 10, minute = 0, second = 0, microsecond = 0\<rparr>
        NoFault ''42'' 7 ''team sync'' ''2030-01-01 10:00'' []
     = \<lparr>replies = [ReminderSet ''team sync'' ''2030-01-01 10:00''],
        reminders = [\<lparr>rm_group_id = ''42'', rm_message_id = 7, rm_content = ''team sync'',
          remind_time = \<lparr>year = 2030, month = 1, day = 1, hour = 10, minute = 0, second = 0, microsecond = 0\<rparr>\<rparr>],
        scheduled = [(''team sync'',
          \<lparr>year = 2030, month = 1, day = 1, hour = 10, minute = 0, second = 0, microsecond = 0\<rparr>)],
        logged = [InfoStoredReminder ''team sync''
          \<lparr>year = 2030, month = 1, day = 1, hour = 10, minute = 0, second = 0, microsecond = 0\<rparr>]\<rparr>"
proof -
  have p: "strptime_padded ''2030-01-01 10:00''
     = Some \<lparr>year = 2030, month = 1, day = 1, hour = 10, minute = 0, second = 0, microsecond = 0\<rparr>"
    by (simp add: strptime_padded_def digit_def days_in_month_def)
  show ?thesis
    by (simp add: p request_reminder_def store_reminder_def dt_less_def dt_fields_def)
qed

lemma lex_less_irrefl: "\<not> lex_less xs xs"
  by (induction xs) auto

text \<open>For every parser and every request: a time equal to the reading of the clock
  passes the check, and on a working store the reminder is stored and scheduled.\<close>

lemma reminder_at_clock_reading_passes:
  "strptime time_str = Some now \<Longrightarrow>
   request_reminder strptime now NoFault g mid content time_str tbl
   = \<lparr>replies = [ReminderSet content time_str],
      reminders = tbl @ [\<lparr>rm_group_id = g, rm_message_id = mid, rm_content = content,
                          remind_time = now\<rparr>],
      scheduled = [(content, now)], logged = [InfoStoredReminder content now]\<rparr>"
  by (simp add: request_reminder_def store_reminder_def dt_less_def lex_less_irrefl)

text \<open>
  Claim C6. A request whose time string the parser refuses is answered with the
  "Invalid format" message, the ValueError is logged, and nothing is left behind: no
  row, no scheduled delivery.
\<close>

theorem unparsable_reminder_rejected:
  assumes "strptime time_str = None"
  shows "request_reminder strptime now fault g mid content time_str tbl
         = \<lparr>replies = [InvalidFormat], reminders = tbl, scheduled = [],
            logged = [ErrorValueErrorInSetReminder]\<rparr>"
  using assms by (simp add: request_reminder_def)

theorem unparsable_reminder_rejected_witness:
  "strptime_padded ''tomorrow'' = None
   \<and> request_reminder strptime_padded
        \<lparr>year = 2030, month = 6, day = 15, hour = 12, minute = 30, second = 5, microsecond = 250\<rparr>
        NoFault ''42'' 7 ''team sync'' ''tomorrow'' []
     = \<lparr>replies = [InvalidFormat], reminders = [], scheduled = [],
        logged = [ErrorValueErrorInSetReminder]\<rparr>"
proof -
  have p: "strptime_padded ''tomorrow'' = None"
    by (simp add: strptime_padded_def)
  show ?thesis
    using p unparsable_reminder_rejected [where strptime = strptime_padded
        and time_str = "''tomorrow''" and fault = NoFault and g = "''42''" and mid = 7
        and content = "''team sync''" and tbl = "[]"
        and now = "\<lparr>year = 2030, month = 6, day = 15, hour = 12, minute = 30, second = 5, microsecond = 250\<rparr>",
        OF p]
    by simp
qed

text \<open>
  When the INSERT of the reminder row (or its commit) fails with a storage error,
  \<open>store_reminder\<close> logs the error and returns normally; \<open>set_reminder\<close> then sends
  "Reminder set for ..." and schedules the delivery, while the table holds no new row.
\<close>

lemma insert_failure_swallowed:
  assumes "fault = ExecuteFails \<or> fault = CommitFails"
    and "strptime time_str = Some t" and "\<not> dt_less t now"
  shows "store_reminder fault g mid content t tbl = (None, tbl, [ErrorSqliteInStoreReminder])
       \<and> request_reminder strptime now fault g mid content time_str tbl
         = \<lparr>replies = [ReminderSet content time_str], reminders = tbl,
            scheduled = [(content, t)], logged = [ErrorSqliteInStoreReminder]\<rparr>"
  using assms by (auto simp: request_reminder_def store_reminder_def)

lemma insert_failure_swallowed_example:
  "(ExecuteFails = ExecuteFails \<or> ExecuteFails = CommitFails)
   \<and> strptime_padded ''2031-02-28 09:15''
     = Some \<lparr>year = 2031, month = 2, day = 28, hour = 9, minute = 15, second = 0, microsecond = 0\<rparr>
   \<and> \<not> dt_less \<lparr>year = 2031, month = 2, day = 28, hour = 9, minute = 15, second = 0, microsecond = 0\<rparr>
          \<lparr>year = 2030, month = 6, day = 15, hour = 12, minute = 30, second = 5, microsecond = 250\<rparr>
   \<and> request_reminder strptime_padded
        \<lparr>year = 2030, month = 6, day = 15, hour = 12, minute = 30, second = 5, microsecond = 250\<rparr>
        ExecuteFails ''42'' 7 ''team sync'' ''2031-02-28 09:15'' []
     = \<lparr>replies = [ReminderSet ''team sync'' ''2031-02-28 09:15''], reminders = [],
        scheduled = [(''team sync'',
          \<lparr>year = 2031, month = 2, day = 28, hour = 9, minute = 15, second = 0, microsecond = 0\<rparr>)],
        logged = [ErrorSqliteInStoreReminder]\<rparr>"
proof -
  have f: "ExecuteFails = ExecuteFails \<or> ExecuteFails = CommitFails" by simp
  have p: "strptime_padded ''2031-02-28 09:15''
     = Some \<lparr>year = 2031, month = 2, day = 28, hour = 9, minute = 15, second = 0, microsecond = 0\<rparr>"
    by (simp add: strptime_padded_def digit_def days_in_month_def)
  have l: "\<not> dt_less \<lparr>year = 2031, month = 2, day = 28, hour = 9, minute = 15, second = 0, microsecond = 0\<rparr>
          \<lparr>year = 2030, month = 6, day = 15, hour = 12, minute = 30, second = 5, microsecond = 250\<rparr>"
    by (simp add: dt_less_def dt_fields_def)
  show ?thesis
    using f p l insert_failure_swallowed [where strptime = strptime_padded
        and time_str = "''2031-02-28 09:15''" and g = "''42''" and mid = 7
        and content = "''team sync''" and tbl = "[]", OF f p l]
    by simp
qed

text \<open>
  Claim C4. A storage error while the reminder is stored should be caught and logged
  inside \<open>store_reminder\<close>, never reach the caller, and the user should still get
  "Reminder set ...". That is what happens when the INSERT or the commit fails (lemma
  \<open>insert_failure_swallowed\<close>). \<open>sqlite3.connect\<close> stands in the same \<open>try\<close>:
  when it is the statement that fails, the error is caught and logged as well, but the
  \<open>finally\<close> clause then calls \<open>conn.close()\<close> on a name that was never bound. The
  UnboundLocalError leaves \<open>store_reminder\<close>, \<open>set_reminder\<close> catches it, and the
  user is told "Failed to set reminder."; no delivery is scheduled.
\<close>

theorem connect_failure_reaches_caller:
  "store_reminder ConnectFails ''42'' 7 ''team sync''
     \<lparr>year = 2031, month = 2, day = 28, hour = 9, minute = 15, second = 0, microsecond = 0\<rparr> []
     = (Some UnboundLocalError, [], [ErrorSqliteInStoreReminder])
   \<and> request_reminder strptime_padded
        \<lparr>year = 2030, month = 6, day = 15, hour = 12, minute = 30, second = 5, microsecond = 250\<rparr>
        ConnectFails ''42'' 7 ''team sync'' ''2031-02-28 09:15'' []
     = \<lparr>replies = [FailedToSet], reminders = [], scheduled = [],
        logged = [ErrorSqliteInStoreReminder, ErrorInSetReminder]\<rparr>"
proof -
  have p: "strptime_padded ''2031-02-28 09:15''
     = Some \<lparr>year = 2031, month = 2, day = 28, hour = 9, minute = 15, second = 0, microsecond = 0\<rparr>"
    by (simp add: strptime_padded_def digit_def days_in_month_def)
  show ?thesis
    by (simp add: p request_reminder_def store_reminder_def dt_less_def dt_fields_def)
qed

section \<open>Properties of the relevance classifier\<close>

lemma is_word_py_lower_char: "is_word (py_lower_char c) = is_word c"
  by (auto simp: is_word_def py_lower_char_def Let_def)

lemma py_lower_append: "py_lower (a @ b) = py_lower a @ py_lower b"
  by (simp add: py_lower_def)

lemma last_char_Cons: "last_char prev (a # pre) = last_char (Some a) pre"
  by (simp add: last_char_def)

text \<open>An occurrence of an alternative that starts and ends with a word character, with
  no word character next to it on either side, is found by the search.\<close>

lemma re_search_occurrence:
  assumes "k \<in> set ks" "k \<noteq> []" "is_word (hd k)" "is_word (last k)"
    "\<not> is_word_at (next_char post)"
  shows "\<not> is_word_at (last_char prev pre) \<Longrightarrow> re_search ks prev (pre @ k @ post)"
proof (induction pre arbitrary: prev)
  case Nil
  obtain c cs where k: "k = c # cs" using assms(2) by (cases k) auto
  have "match_alternative prev (k @ post) k"
    using assms Nil
    by (simp add: match_alternative_def word_boundary_def last_char_def k next_char_def
        is_word_at_def)
  then have "list_ex (match_alternative prev (k @ post)) ks"
    using assms(1) by (auto simp: list_ex_iff)
  then show ?case by (simp add: k)
next
  case (Cons a pre)
  then show ?case by (simp add: last_char_Cons)
qed

lemma keywords_are_words:
  "k \<in> set (concat IMPORTANT_KEYWORDS) \<Longrightarrow> k \<noteq> [] \<and> is_word (hd k) \<and> is_word (last k)"
  by (auto simp: IMPORTANT_KEYWORDS_def is_word_def)

text \<open>
  Claim C7, as the code has it. The patterns are anchored by \<open>\b\<close> on both sides, so
  a keyword counts when it stands as a word of its own: in any mix of upper and lower
  case, with no word character directly before or after it. A word character is what
  \<open>\w\<close> of Python's \<open>re\<close> matches, an alphanumeric code point or the underscore
  (\<open>is_word\<close>; the fractions U+00BC to U+00BE are among them). Then
  \<open>detect_relevance\<close> is true, whatever the entity recogniser finds.
\<close>

theorem keyword_as_word_is_relevant:
  assumes k: "k \<in> set (concat IMPORTANT_KEYWORDS)" and w: "py_lower w = k"
    and t: "text = pre @ w @ post"
    and l: "pre = [] \<or> \<not> is_word (last pre)" and r: "post = [] \<or> \<not> is_word (hd post)"
  shows "detect_relevance ents text"
proof -
  obtain ks where ks: "ks \<in> set IMPORTANT_KEYWORDS" "k \<in> set ks" using k by auto
  have kw: "k \<noteq> []" "is_word (hd k)" "is_word (last k)"
    using keywords_are_words [OF k] by auto
  have l': "\<not> is_word_at (last_char None (py_lower pre))"
    using l by (auto simp: last_char_def is_word_at_def py_lower_def last_map is_word_py_lower_char)
  have r': "\<not> is_word_at (next_char (py_lower post))"
    using r by (cases post) (auto simp: next_char_def is_word_at_def py_lower_def is_word_py_lower_char)
  have "re_search ks None (py_lower pre @ k @ py_lower post)"
    using re_search_occurrence [OF ks(2) kw r' l'] .
  then have "re_search ks None (py_lower text)" by (simp add: t py_lower_append w)
  then have "list_ex (\<lambda>pattern. re_search pattern None (py_lower text)) IMPORTANT_KEYWORDS"
    using ks(1) by (auto simp: list_ex_iff)
  then show ?thesis by (simp add: detect_relevance_def)
qed

theorem keyword_as_word_is_relevant_witness:
  "''event'' \<in> set (concat IMPORTANT_KEYWORDS) \<and> py_lower ''EVENT'' = ''event''
   \<and> ''The EVENT is on'' = ''The '' @ ''EVENT'' @ '' is on''
   \<and> \<not> is_word (last ''The '') \<and> \<not> is_word (hd '' is on'')
   \<and> detect_relevance no_entities ''The EVENT is on''"
proof -
  have k: "''event'' \<in> set (concat IMPORTANT_KEYWORDS)" by (simp add: IMPORTANT_KEYWORDS_def)
  have w: "py_lower ''EVENT'' = ''event''" by code_simp
  have t: "''The EVENT is on'' = ''The '' @ ''EVENT'' @ '' is on''" by simp
  have l: "''The '' = [] \<or> \<not> is_word (last ''The '')" by (simp add: is_word_def)
  have r: "'' is on'' = [] \<or> \<not> is_word (hd '' is on'')" by (simp add: is_word_def)
  have l': "\<not> is_word (last ''The '')" and r': "\<not> is_word (hd '' is on'')"
    by (simp_all add: is_word_def)
  show ?thesis
    using k w l' r' keyword_as_word_is_relevant [OF k w t l r, of no_entities] by simp
qed

text \<open>
  The claim as written asks for no more than that the text contains a keyword. The
  text \<open>events\<close> contains \<open>event\<close>, followed by a letter: no pattern matches, and
  with no entity found \<open>detect_relevance\<close> is false.
\<close>

theorem keyword_inside_word_not_relevant:
  "''event'' \<in> set (concat IMPORTANT_KEYWORDS) \<and> ''events'' = [] @ ''event'' @ ''s''
   \<and> \<not> detect_relevance no_entities ''events''"
  by (simp add: IMPORTANT_KEYWORDS_def detect_relevance_def no_entities_def py_lower_def
      py_lower_char_def match_alternative_def word_boundary_def is_word_at_def next_char_def
      last_char_def is_word_def)

section \<open>Properties of the question extractor\<close>

lemma first_question_None: "first_question ss = None \<longleftrightarrow> \<not> list_ex is_question ss"
  by (induction ss) auto

lemma first_question_at:
  "i < length ss \<Longrightarrow> is_question (ss ! i) \<Longrightarrow> \<not> list_ex is_question (take i ss)
   \<Longrightarrow> first_question ss = Some (py_strip (sent_text (ss ! i)))"
proof (induction ss arbitrary: i)
  case Nil
  then show ?case by simp
next
  case (Cons s ss)
  then show ?case by (cases i) auto
qed

text \<open>
  Claim C8. \<open>extract_question\<close> gives nothing exactly when no sentence of the text
  has a question mark or one of the five lemmas; and when sentence \<open>i\<close> has one and
  no sentence before it has, the result is the text of sentence \<open>i\<close> (with the white
  space at its two ends removed, as \<open>strip()\<close> does), whatever the later sentences
  are.
\<close>

theorem extract_question_first_match:
  "(extract_question sents text = None \<longleftrightarrow> \<not> list_ex is_question (sents text))
   \<and> (\<forall>i < length (sents text).
         is_question (sents text ! i) \<and> \<not> list_ex is_question (take i (sents text))
         \<longrightarrow> extract_question sents text = Some (py_strip (sent_text (sents text ! i))))"
  by (simp add: extract_question_def first_question_None first_question_at)

theorem extract_question_first_match_witness:
  "(1::nat) < length (two_questions ''Hello all. Where is it? Why not here?'')
   \<and> is_question (two_questions ''Hello all. Where is it? Why not here?'' ! 1)
   \<and> \<not> list_ex is_question (take 1 (two_questions ''Hello all. Where is it? Why not here?''))
   \<and> extract_question two_questions ''Hello all. Where is it? Why not here?''
       = Some ''Where is it?''"
proof -
  have a: "(1::nat) < length (two_questions ''Hello all. Where is it? Why not here?'')"
    by (simp add: two_questions_def)
  have b: "is_question (two_questions ''Hello all. Where is it? Why not here?'' ! 1)"
    by (simp add: two_questions_def is_question_def)
  have c: "\<not> list_ex is_question (take 1 (two_questions ''Hello all. Where is it? Why not here?''))"
    by (simp add: two_questions_def is_question_def)
  have d: "py_strip (sent_text (two_questions ''Hello all. Where is it? Why not here?'' ! 1))
      = ''Where is it?''"
    by (simp add: two_questions_def py_strip_def py_isspace_def)
  show ?thesis
    using a b c d
      extract_question_first_match [of two_questions "''Hello all. Where is it? Why not here?''"]
    by simp
qed

section \<open>Properties of the context buffer\<close>

lemma length_append_context: "length buf \<le> 100 \<Longrightarrow> length (append_context buf text) \<le> 100"
  by (simp add: append_context_def Let_def)

lemma append_context_eq:
  "append_context buf text = (if length buf < 100 then buf @ [text] else tl buf @ [text])"
  by (cases buf) (auto simp: append_context_def Let_def)

lemma group_context_handle_message:
  "group_context (snd (handle_message ents sents b (g, mid, text)))
   = (group_context b)(g := append_context (group_context b g) text)"
  by (simp add: handle_message_def Let_def split: prod.splits)

lemma context_bounded:
  "(\<And>g. length (group_context b g) \<le> 100) \<Longrightarrow>
   length (group_context (handle_messages ents sents b msgs) g) \<le> 100"
proof (induction msgs arbitrary: b g)
  case Nil
  then show ?case by simp
next
  case (Cons m msgs)
  obtain g' mid body where m: "m = (g', mid, body)" by (cases m) auto
  have "length (group_context (snd (handle_message ents sents b m)) h) \<le> 100" for h
    using Cons.prems by (simp add: m group_context_handle_message length_append_context)
  then show ?case using Cons.IH by simp
qed

text \<open>
  Claim C9. From a fresh bot, after any messages, the buffer of every group holds at
  most 100 texts. And a message to a group appends its text to the buffer of the
  group; when the buffer already holds 100 (or more), the first, oldest text is
  removed and the others keep their order.
\<close>

theorem group_context_at_most_100:
  "length (group_context (handle_messages ents sents init_bot msgs) g) \<le> 100
   \<and> group_context (snd (handle_message ents sents b (g, mid, text))) g
     = (if length (group_context b g) < 100 then group_context b g @ [text]
        else tl (group_context b g) @ [text])"
  using context_bounded [of init_bot ents sents msgs g]
  by (simp add: init_bot_def group_context_handle_message append_context_eq)

section \<open>The commands on their arguments\<close>

text \<open>The handlers join the words of the command with spaces, split at the bar and
  strip the two parts: \<open>/setreminder team sync | 2030-01-01 10:00\<close> is the request
  for the content \<open>team sync\<close> at \<open>2030-01-01 10:00\<close>, and a command without a bar
  gets the usage message.\<close>

lemma set_reminder_request:
  "set_reminder strptime now fault g mid [''team'', ''sync'', ''|'', ''2030-01-01'', ''10:00''] tbl
   = request_reminder strptime now fault g mid ''team sync'' ''2030-01-01 10:00'' tbl"
  by (simp add: set_reminder_def py_strip_def py_isspace_def)

lemma set_reminder_usage:
  "set_reminder strptime now fault g mid [''team'', ''sync''] tbl
   = \<lparr>replies = [ReminderUsage], reminders = tbl, scheduled = [], logged = []\<rparr>"
  by (simp add: set_reminder_def)

lemma add_faq_registers:
  "add_faq ''42'' [''what'', ''is'', ''the'', ''venue'', ''|'', ''Building'', ''5''] []
   = ([FaqAdded ''what is the venue '' '' Building 5''],
      [\<lparr>group_id = ''42'', question = ''what is the venue'', answer = ''Building 5'',
        frequency = 1\<rparr>])"
  by (simp add: add_faq_def store_faq_def py_strip_def py_isspace_def)

end
